theory Spec2Isabelle
  imports Complex_Main
begin

section \<open>The motion controller of \<open>src/utils/motion.py\<close>\<close>

text \<open>
  The embedding follows the two classes of the file, \<open>RepeatedTimer\<close> and \<open>Robot\<close>.
  Python numbers that the code treats as floats are real numbers here, and the calibration
  products and quotients are exact (their rounding is not modelled). The one float
  computation that decides control flow, the counter \<open>t += 0.1\<close> of \<open>time_move\<close>, is
  rounded as a binary64 addition rounds. Wheel speeds and sensor readings are Python ints,
  hence \<open>int\<close>. Console output (\<open>verbose\<close>) and the
  \<open>time.time()\<close> stamps that only feed it are left out.

  Everything the controller does to the outside world is appended to a trace: writes to the
  robot transport (\<open>th.set_var\<close>), sleeps, and the starting and cancelling of
  \<open>threading.Timer\<close> objects. What the controller reads from outside arrives as a finite
  script: the successive values of \<open>th['prox.horizontal']\<close>, and the successive values the
  foreground thread observes in \<open>flag_local\<close> (which the watchdog thread writes).
\<close>

subsection \<open>Data\<close>

datatype py_error = ZeroDivisionError | IndexError | ValueError

datatype py_value = PyNone | PyBool bool

datatype event =
    SetVar string int
  | Sleep real
  | TimerStart real
  | TimerCancel

record repeated_timer =
  interval :: real
  is_running :: bool

record robot =
  curr_pos :: "real list"
  wheeltowheel_length :: real
  speed :: int
  speed_to_mm_s :: real
  speed_to_deg_s :: real
  rt :: repeated_timer
  flag_local :: bool
  flag_skip :: int
  trace :: "event list"

text \<open>
  How a call ends: it returns a value in a final state, it raises in the state reached so
  far, or it is still running, in the state reached so far, when the script of observations
  is used up (\<open>Pending\<close>; a busy-wait or a sensor loop that never ends exhausts every
  script).
\<close>

datatype 'a outcome = Returns 'a robot | Raises py_error robot | Pending robot

definition emit :: "event list \<Rightarrow> robot \<Rightarrow> robot" where
  "emit evs s = s\<lparr>trace := trace s @ evs\<rparr>"

text \<open>Sequencing: what follows a call runs only if the call returned.\<close>

definition and_then :: "'a outcome \<Rightarrow> ('a \<Rightarrow> robot \<Rightarrow> 'b outcome) \<Rightarrow> 'b outcome" where
  "and_then m k = (case m of Returns v s \<Rightarrow> k v s | Raises e s \<Rightarrow> Raises e s | Pending s \<Rightarrow> Pending s)"

subsection \<open>Library functions the code calls\<close>

definition degrees :: "real \<Rightarrow> real" where
  "degrees x = x * 180 / pi"

definition atan2 :: "real \<Rightarrow> real \<Rightarrow> real" where
  "atan2 y x =
     (if 0 < x then arctan (y / x)
      else if x < 0 \<and> 0 \<le> y then arctan (y / x) + pi
      else if x < 0 \<and> y < 0 then arctan (y / x) - pi
      else if 0 < y then pi / 2
      else if y < 0 then - (pi / 2)
      else 0)"

text \<open>Python's \<open>%\<close> on floats: the result has the sign of the (here positive) divisor.\<close>

definition py_mod :: "real \<Rightarrow> real \<Rightarrow> real" where
  "py_mod x m = x - m * of_int \<lfloor>x / m\<rfloor>"

text \<open>
  Binary64 arithmetic (IEEE 754, round to nearest, ties to even) on the normal range: a
  real is rounded to the nearest multiple of \<open>2 ^ (e - 52)\<close>, where \<open>2 ^ e\<close> is the power of
  two at or below its magnitude. Overflow, subnormal numbers, infinities and NaN are left
  out; the counter of \<open>time_move\<close> meets none of them. \<open>float_0_1\<close> is the value of the
  literal \<open>0.1\<close>.
\<close>

definition pow2 :: "int \<Rightarrow> real" where
  "pow2 e = (if 0 \<le> e then 2 ^ nat e else 1 / 2 ^ nat (- e))"

definition round_half_even :: "real \<Rightarrow> int" where
  "round_half_even y =
     (let f = \<lfloor>y\<rfloor>
      in if y - of_int f < 1 / 2 then f
         else if y - of_int f > 1 / 2 then f + 1
         else if even f then f else f + 1)"

definition float_round :: "real \<Rightarrow> real" where
  "float_round x =
     (if x = 0 then 0
      else let u = pow2 (\<lfloor>log 2 \<bar>x\<bar>\<rfloor> - 52) in u * of_int (round_half_even (x / u)))"

definition float_add :: "real \<Rightarrow> real \<Rightarrow> real" where
  "float_add x y = float_round (x + y)"

definition float_0_1 :: real where
  "float_0_1 = float_round (1 / 10)"

subsection \<open>RepeatedTimer\<close>

definition RepeatedTimer_start :: "robot \<Rightarrow> robot" where
  "RepeatedTimer_start s =
     (if \<not> is_running (rt s)
      then (emit [TimerStart (interval (rt s))] s)\<lparr>rt := (rt s)\<lparr>is_running := True\<rparr>\<rparr>
      else s)"

definition RepeatedTimer_stop :: "robot \<Rightarrow> robot" where
  "RepeatedTimer_stop s = (emit [TimerCancel] s)\<lparr>rt := (rt s)\<lparr>is_running := False\<rparr>\<rparr>"

text \<open>\<open>_run\<close>: clear \<open>is_running\<close>, call \<open>start()\<close>, then call the action.\<close>

definition RepeatedTimer_run :: "(robot \<Rightarrow> 'a) \<Rightarrow> robot \<Rightarrow> 'a" where
  "RepeatedTimer_run function s =
     function (RepeatedTimer_start (s\<lparr>rt := (rt s)\<lparr>is_running := False\<rparr>\<rparr>))"

subsection \<open>Robot: accessors and the motor command\<close>

text \<open>
  \<open>__init__\<close>: the constructor of \<open>RepeatedTimer\<close> calls \<open>start()\<close>, so a fresh robot has
  its watchdog armed.
\<close>

definition Robot_init :: robot where
  "Robot_init =
     RepeatedTimer_start
       \<lparr>curr_pos = [0, 0, 0], wheeltowheel_length = 95, speed = 100,
        speed_to_mm_s = 0.31573, speed_to_deg_s = degrees (2 * 0.31573 / 95),
        rt = \<lparr>interval = 0.4, is_running = False\<rparr>,
        flag_local = False, flag_skip = 0, trace = []\<rparr>"

definition get_position :: "robot \<Rightarrow> real list" where
  "get_position s = curr_pos s"

definition set_position :: "real list \<Rightarrow> robot \<Rightarrow> robot" where
  "set_position pos s = s\<lparr>curr_pos := pos\<rparr>"

definition set_speed :: "int \<Rightarrow> robot \<Rightarrow> robot" where
  "set_speed v s = s\<lparr>speed := v\<rparr>"

text \<open>Lines 196-199 of \<open>move\<close>: what is written to the transport for a wheel speed.\<close>

definition encode_speed :: "int \<Rightarrow> int" where
  "encode_speed v = (if v < 0 then v + 2 ^ 16 else v)"

text \<open>Lines 75-78 of \<open>get_speed\<close>: what a speed read from the transport stands for.\<close>

definition decode_speed :: "int \<Rightarrow> int" where
  "decode_speed m = (if m > 9999 then m - 2 ^ 16 else m)"

definition move :: "int \<Rightarrow> int \<Rightarrow> robot \<Rightarrow> robot" where
  "move l_speed r_speed s =
     emit [SetVar ''motor.left.target'' (encode_speed l_speed),
           SetVar ''motor.right.target'' (encode_speed r_speed)] s"

definition stop :: "robot \<Rightarrow> robot" where
  "stop s = move 0 0 s"

text \<open>
  \<open>get_speed\<close>, given the two values read from \<open>motor.left.speed\<close> and
  \<open>motor.right.speed\<close>: the measured speeds in mm/s. (The attribute \<open>measured_speed\<close>, in
  which the method also keeps its result, is read nowhere else and is not part of the state.)
\<close>

definition get_speed :: "int \<Rightarrow> int \<Rightarrow> robot \<Rightarrow> real \<times> real" where
  "get_speed left right s =
     (speed_to_mm_s s * of_int (decode_speed left),
      speed_to_mm_s s * of_int (decode_speed right))"

subsection \<open>Robot: the timed wait\<close>

text \<open>
  \<open>time_move_while t target_time flags\<close> is the outer loop of \<open>time_move\<close> entered with the
  counter at \<open>t\<close>; \<open>time_move_blocked\<close> is the inner busy-wait, entered after the counter
  has been set to \<open>target_time\<close>. Each test of \<open>self.flag_local\<close> takes one value off
  \<open>flags\<close>. The counter is a float: \<open>t += 0.1\<close> is a binary64 addition.
\<close>

fun time_move_while :: "real \<Rightarrow> real \<Rightarrow> bool list \<Rightarrow> robot \<Rightarrow> bool list outcome"
  and time_move_blocked :: "real \<Rightarrow> bool list \<Rightarrow> robot \<Rightarrow> bool list outcome" where
  "time_move_while t target_time [] s =
     (if t \<le> target_time then Pending s else Returns [] s)"
| "time_move_while t target_time (f # flags) s =
     (if t \<le> target_time
      then (if \<not> f
            then time_move_while (float_add t float_0_1) target_time flags (emit [Sleep 0.1] s)
            else time_move_blocked target_time flags s)
      else Returns (f # flags) s)"
| "time_move_blocked target_time [] s = Pending s"
| "time_move_blocked target_time (f # flags) s =
     (if f then time_move_blocked target_time flags s
      else time_move_while target_time target_time flags s)"

definition time_move :: "real \<Rightarrow> bool list \<Rightarrow> robot \<Rightarrow> bool list outcome" where
  "time_move target_time flags s = time_move_while 0 target_time flags s"

subsection \<open>Robot: the motion primitives\<close>

definition go_straight :: "real \<Rightarrow> bool list \<Rightarrow> robot \<Rightarrow> (py_value \<times> bool list) outcome" where
  "go_straight distance flags s =
     (if of_int (speed s) * speed_to_mm_s s = 0 then Raises ZeroDivisionError s
      else
        let target_time = \<bar>distance\<bar> / (of_int (speed s) * speed_to_mm_s s);
            s1 = (if distance > 0 then move (speed s) (speed s) s
                  else if distance < 0 then move (- speed s) (- speed s) s
                  else s)
        in and_then (time_move target_time flags s1) (\<lambda>flags' s2. Returns (PyNone, flags') s2))"

text \<open>\<open>time.sleep\<close> raises \<open>ValueError\<close> on a negative length.\<close>

definition turn :: "real \<Rightarrow> robot \<Rightarrow> py_value outcome" where
  "turn turn_angle s =
     (if of_int (speed s) * speed_to_deg_s s = 0 then Raises ZeroDivisionError s
      else
        let target_time = \<bar>turn_angle\<bar> / (of_int (speed s) * speed_to_deg_s s)
        in if turn_angle = 0 then Returns (PyBool False) s
           else
             let s1 = (if turn_angle > 0 then move (- speed s) (speed s) s
                       else move (speed s) (- speed s) s)
             in if target_time < 0 then Raises ValueError s1
                else Returns PyNone (emit [Sleep target_time] s1))"

text \<open>Lines 107-112 of \<open>move_to_target\<close>: the angle handed to \<open>turn\<close>.\<close>

definition turn_angle_to :: "real list \<Rightarrow> real list \<Rightarrow> real" where
  "turn_angle_to pos target_pos =
     (let path_angle = degrees (atan2 (target_pos ! 1 - pos ! 1) (target_pos ! 0 - pos ! 0));
          turn_angle = path_angle - pos ! 2
      in if \<bar>turn_angle\<bar> > 180 then py_mod (turn_angle + 360) 360 else turn_angle)"

definition move_to_target :: "real list \<Rightarrow> bool list \<Rightarrow> robot \<Rightarrow> (py_value \<times> bool list) outcome" where
  "move_to_target target_pos flags s =
     (if target_pos = take 2 (curr_pos s) then Returns (PyBool False, flags) s
      else if length target_pos < 2 \<or> length (curr_pos s) < 3 then Raises IndexError s
      else
        let distance = sqrt ((target_pos ! 0 - curr_pos s ! 0)\<^sup>2 + (target_pos ! 1 - curr_pos s ! 1)\<^sup>2);
            turn_angle = turn_angle_to (curr_pos s) target_pos
        in and_then (turn turn_angle s) (\<lambda>_ s1.
             and_then (go_straight distance flags s1) (\<lambda>r s2. Returns (PyNone, snd r) s2)))"

subsection \<open>Robot: obstacle detection and avoidance\<close>

text \<open>The condition of line 222, on one value of \<open>th['prox.horizontal']\<close>.\<close>

definition saw_wall :: "int \<Rightarrow> int list \<Rightarrow> bool" where
  "saw_wall wall_threshold prox =
     list_ex (\<lambda>x. x > wall_threshold) (take (length prox - 2) prox)"

text \<open>
  One pass through the body of the loop of \<open>wall_following\<close>, up to the test of \<open>count\<close>.
  Its call \<open>self.test_saw_wall(thread=False, ...)\<close> reads one sensor value \<open>prox\<close> and
  returns the condition above without changing anything (see \<open>test_saw_wall\<close> below). The
  result is the new \<open>prev_state\<close>, the new \<open>count\<close> and the new state.
\<close>

definition wall_following_iter ::
  "int \<Rightarrow> string \<Rightarrow> int \<Rightarrow> int list \<Rightarrow> robot \<Rightarrow> string \<times> int \<times> robot" where
  "wall_following_iter wall_threshold prev_state count prox s =
     (if saw_wall wall_threshold prox then
        (if prev_state = ''forward''
         then (''turning'', 0, emit [Sleep 0.1] (move 100 (- 100) s))
         else (prev_state, count, s))
      else
        (if prev_state = ''turning''
         then (''forward'', count + 1, emit [Sleep 0.5] (move 100 100 s))
         else (''turning'', count + 1, emit [Sleep 0.15] (move (- 100) 100 s))))"

text \<open>The loop: one sensor value is taken off the script per iteration.\<close>

fun wall_following_loop ::
  "int \<Rightarrow> string \<Rightarrow> int \<Rightarrow> int list list \<Rightarrow> robot \<Rightarrow> int list list outcome" where
  "wall_following_loop wall_threshold prev_state count [] s = Pending s"
| "wall_following_loop wall_threshold prev_state count (prox # feed) s =
     (case wall_following_iter wall_threshold prev_state count prox s of
        (prev_state', count', s') \<Rightarrow>
          if count' \<ge> 15 then Returns feed (stop s')
          else wall_following_loop wall_threshold prev_state' count' feed s')"

definition wall_following :: "int \<Rightarrow> int \<Rightarrow> int list list \<Rightarrow> robot \<Rightarrow> int list list outcome" where
  "wall_following motor_speed wall_threshold feed s =
     wall_following_loop wall_threshold ''forward'' 0 feed (move 100 100 s)"

text \<open>
  \<open>test_saw_wall\<close>. In the scheduled form it calls \<open>wall_following\<close> with that function's
  default arguments (speed 100, threshold 500), whatever its own threshold is.
\<close>

definition test_saw_wall ::
  "bool \<Rightarrow> int \<Rightarrow> int list list \<Rightarrow> robot \<Rightarrow> (py_value \<times> int list list) outcome" where
  "test_saw_wall thread wall_threshold feed s =
     (case feed of
        [] \<Rightarrow> Pending s
      | prox # feed1 \<Rightarrow>
          if saw_wall wall_threshold prox then
            (if thread then
               and_then
                 (wall_following 100 500 feed1
                    ((RepeatedTimer_stop s)\<lparr>flag_local := True, flag_skip := 2\<rparr>))
                 (\<lambda>feed2 s2.
                    Returns (PyBool False, feed2) (RepeatedTimer_start (s2\<lparr>flag_local := False\<rparr>)))
             else Returns (PyBool True, feed1) s)
          else Returns (PyBool False, feed1) s)"

text \<open>A firing of the robot's watchdog: \<open>rt._run()\<close> with \<open>test_saw_wall\<close> as the action.\<close>

definition watchdog_run :: "int list list \<Rightarrow> robot \<Rightarrow> (py_value \<times> int list list) outcome" where
  "watchdog_run feed s = RepeatedTimer_run (test_saw_wall True 500 feed) s"

subsection \<open>Notions used to state the properties\<close>

text \<open>
  The state in which a call ended, a change applied to that state, and the wheel speeds a
  stretch of trace commands (decoded as \<open>get_speed\<close> decodes them).
\<close>

definition map_state :: "(robot \<Rightarrow> robot) \<Rightarrow> 'a outcome \<Rightarrow> 'a outcome" where
  "map_state f r =
     (case r of Returns v s \<Rightarrow> Returns v (f s) | Raises e s \<Rightarrow> Raises e (f s)
      | Pending s \<Rightarrow> Pending (f s))"

definition final_state :: "'a outcome \<Rightarrow> robot" where
  "final_state r = (case r of Returns v s \<Rightarrow> s | Raises e s \<Rightarrow> s | Pending s \<Rightarrow> s)"

fun wheel_speeds :: "event list \<Rightarrow> int list" where
  "wheel_speeds [] = []"
| "wheel_speeds (SetVar name v # evs) = decode_speed v # wheel_speeds evs"
| "wheel_speeds (e # evs) = wheel_speeds evs"

text \<open>
  \<open>slice_counter k t\<close>: the counter of \<open>time_move\<close> after \<open>k\<close> more slices, starting from
  \<open>t\<close>.
\<close>

fun slice_counter :: "nat \<Rightarrow> real \<Rightarrow> real" where
  "slice_counter 0 t = t"
| "slice_counter (Suc k) t = slice_counter k (float_add t float_0_1)"

text \<open>
  What an iteration of the avoidance loop does when the sensors report no obstacle, as
  events and as the next \<open>prev_state\<close>; \<open>sweep_events p n\<close> collects \<open>n\<close> such iterations
  in a row, starting from \<open>prev_state = p\<close>.
\<close>

definition clear_step_events :: "string \<Rightarrow> event list" where
  "clear_step_events p =
     (if p = ''turning''
      then [SetVar ''motor.left.target'' 100, SetVar ''motor.right.target'' 100, Sleep 0.5]
      else [SetVar ''motor.left.target'' 65436, SetVar ''motor.right.target'' 100, Sleep 0.15])"

definition clear_step_state :: "string \<Rightarrow> string" where
  "clear_step_state p = (if p = ''turning'' then ''forward'' else ''turning'')"

fun sweep_events :: "string \<Rightarrow> nat \<Rightarrow> event list" where
  "sweep_events p 0 = []"
| "sweep_events p (Suc n) = clear_step_events p @ sweep_events (clear_step_state p) n"

section \<open>Properties\<close>

subsection \<open>Auxiliary facts\<close>

lemma and_then_simps:
  "and_then (Returns v s) k = k v s"
  "and_then (Raises e s) k = Raises e s"
  "and_then (Pending s) k = Pending s"
  by (simp_all add: and_then_def)

lemma emit_emit: "emit b (emit a s) = emit (a @ b) s"
  by (simp add: emit_def)

lemma emit_Nil: "emit [] s = s"
  by (simp add: emit_def)

lemma Robot_init_fields:
  "curr_pos Robot_init = [0, 0, 0]"
  "speed Robot_init = 100"
  "speed_to_mm_s Robot_init = 31573 / 100000"
  "speed_to_deg_s Robot_init = 284157 / (237500 * pi)"
  "rt Robot_init = \<lparr>interval = 2 / 5, is_running = True\<rparr>"
  "flag_local Robot_init = False"
  "flag_skip Robot_init = 0"
  "trace Robot_init = [TimerStart (2 / 5)]"
  by (simp_all add: Robot_init_def RepeatedTimer_start_def emit_def degrees_def)

lemma pow2_powr: "pow2 e = 2 powr of_int e"
proof (cases "0 \<le> e")
  case True
  then have "2 powr of_int e = (2::real) powr real (nat e)" by simp
  also have "\<dots> = 2 ^ nat e" by (simp add: powr_realpow)
  finally show ?thesis using True by (simp add: pow2_def)
next
  case False
  then have "(2::real) powr of_int e = 2 powr (- real (nat (- e)))" by simp
  also have "\<dots> = 1 / 2 powr real (nat (- e))" by (simp add: powr_minus divide_simps)
  also have "\<dots> = 1 / 2 ^ nat (- e)" by (simp add: powr_realpow)
  finally show ?thesis using False by (simp add: pow2_def)
qed

lemma pow2_pos: "0 < pow2 e"
  by (simp add: pow2_powr)

lemma floor_log2: 
  assumes "pow2 e \<le> x" and "x < pow2 (e + 1)"
  shows "\<lfloor>log 2 x\<rfloor> = e"
proof -
  have pos: "0 < x" using assms(1) pow2_pos [of e] by linarith
  have a: "of_int e \<le> log 2 x"
    using assms(1) pos by (simp add: le_log_iff pow2_powr)
  have b: "log 2 x < of_int e + 1"
    using assms(2) pos by (simp add: log_less_iff pow2_powr)
  from a b show ?thesis by (simp add: floor_eq_iff)
qed

lemma float_round_eq:
  assumes "pow2 e \<le> \<bar>x\<bar>" and "\<bar>x\<bar> < pow2 (e + 1)"
  shows "float_round x = pow2 (e - 52) * of_int (round_half_even (x / pow2 (e - 52)))"
proof -
  have "x \<noteq> 0" using assms(1) pow2_pos [of e] by auto
  then show ?thesis
    by (simp add: float_round_def floor_log2 [OF assms] Let_def)
qed

lemma float_0_1_value: "float_0_1 = 3602879701896397 / 36028797018963968"
  unfolding float_0_1_def
  by (subst float_round_eq [where e = "- 4"])
     (simp_all add: pow2_def round_half_even_def Let_def)

lemma first_slice: "float_add 0 float_0_1 = 3602879701896397 / 36028797018963968"
  unfolding float_add_def float_0_1_value
  by (subst float_round_eq [where e = "- 4"])
     (simp_all add: pow2_def round_half_even_def Let_def)

lemma slice_steps:
  "float_add 0 float_0_1 = 3602879701896397 / 36028797018963968"
  "float_add (3602879701896397 / 36028797018963968) float_0_1 = 3602879701896397 / 18014398509481984"
  "float_add (3602879701896397 / 18014398509481984) float_0_1 = 1351079888211149 / 4503599627370496"
  "float_add (1351079888211149 / 4503599627370496) float_0_1 = 3602879701896397 / 9007199254740992"
  "float_add (3602879701896397 / 9007199254740992) float_0_1 = 1 / 2"
  "float_add (1 / 2) float_0_1 = 5404319552844595 / 9007199254740992"
  "float_add (5404319552844595 / 9007199254740992) float_0_1 = 3152519739159347 / 4503599627370496"
  "float_add (3152519739159347 / 4503599627370496) float_0_1 = 7205759403792793 / 9007199254740992"
  "float_add (7205759403792793 / 9007199254740992) float_0_1 = 2026619832316723 / 2251799813685248"
  "float_add (2026619832316723 / 2251799813685248) float_0_1 = 9007199254740991 / 9007199254740992"
  "float_add (9007199254740991 / 9007199254740992) float_0_1 = 4953959590107545 / 4503599627370496"
  "float_add (4953959590107545 / 4503599627370496) float_0_1 = 5404319552844595 / 4503599627370496"
  "float_add (5404319552844595 / 4503599627370496) float_0_1 = 5854679515581645 / 4503599627370496"
  "float_add (5854679515581645 / 4503599627370496) float_0_1 = 6305039478318695 / 4503599627370496"
  "float_add (6305039478318695 / 4503599627370496) float_0_1 = 6755399441055745 / 4503599627370496"
  unfolding float_add_def float_0_1_value
  subgoal by (subst float_round_eq [where e = "- 4"])
      (simp_all add: pow2_def round_half_even_def Let_def)
  subgoal by (subst float_round_eq [where e = "- 3"])
      (simp_all add: pow2_def round_half_even_def Let_def)
  subgoal by (subst float_round_eq [where e = "- 2"])
      (simp_all add: pow2_def round_half_even_def Let_def)
  subgoal by (subst float_round_eq [where e = "- 2"])
      (simp_all add: pow2_def round_half_even_def Let_def)
  subgoal by (subst float_round_eq [where e = "- 1"])
      (simp_all add: pow2_def round_half_even_def Let_def)
  subgoal by (subst float_round_eq [where e = "- 1"])
      (simp_all add: pow2_def round_half_even_def Let_def)
  subgoal by (subst float_round_eq [where e = "- 1"])
      (simp_all add: pow2_def round_half_even_def Let_def)
  subgoal by (subst float_round_eq [where e = "- 1"])
      (simp_all add: pow2_def round_half_even_def Let_def)
  subgoal by (subst float_round_eq [where e = "- 1"])
      (simp_all add: pow2_def round_half_even_def Let_def)
  subgoal by (subst float_round_eq [where e = "- 1"])
      (simp_all add: pow2_def round_half_even_def Let_def)
  subgoal by (subst float_round_eq [where e = "0"])
      (simp_all add: pow2_def round_half_even_def Let_def)
  subgoal by (subst float_round_eq [where e = "0"])
      (simp_all add: pow2_def round_half_even_def Let_def)
  subgoal by (subst float_round_eq [where e = "0"])
      (simp_all add: pow2_def round_half_even_def Let_def)
  subgoal by (subst float_round_eq [where e = "0"])
      (simp_all add: pow2_def round_half_even_def Let_def)
  subgoal by (subst float_round_eq [where e = "0"])
      (simp_all add: pow2_def round_half_even_def Let_def)
  done

lemma slice_counter_14: "slice_counter 14 0 = 6305039478318695 / 4503599627370496"
  by (simp add: numeral_eq_Suc slice_steps)

lemma slice_counter_15: "slice_counter 15 0 = 6755399441055745 / 4503599627370496"
  by (simp add: numeral_eq_Suc slice_steps)




lemma time_move_while_past:
  "target_time < t \<Longrightarrow> time_move_while t target_time flags s = Returns flags s"
  by (cases flags) simp_all




lemma wheel_speeds_append: "wheel_speeds (a @ b) = wheel_speeds a @ wheel_speeds b"
  by (induction a rule: wheel_speeds.induct) simp_all

lemma iter_clear:
  "\<not> saw_wall thr prox \<Longrightarrow>
   wall_following_iter thr p c prox s = (clear_step_state p, c + 1, emit (clear_step_events p) s)"
  by (simp add: wall_following_iter_def clear_step_state_def clear_step_events_def move_def
      encode_speed_def emit_emit)

lemma iter_saw_forward:
  "saw_wall thr prox \<Longrightarrow>
   wall_following_iter thr ''forward'' c prox s =
     (''turning'', 0, emit [SetVar ''motor.left.target'' 100, SetVar ''motor.right.target'' 65436,
                           Sleep 0.1] s)"
  by (simp add: wall_following_iter_def move_def encode_speed_def emit_emit)

lemma loop_clear_run:
  "\<lbrakk>\<forall>c\<in>set cs. \<not> saw_wall thr c; count + int (length cs) = 15; cs \<noteq> []\<rbrakk> \<Longrightarrow>
   wall_following_loop thr p count (cs @ feed) s =
     Returns feed (stop (emit (sweep_events p (length cs)) s))"
proof (induction cs arbitrary: p count s)
  case Nil
  then show ?case by simp
next
  case (Cons c cs)
  have clear: "\<not> saw_wall thr c" using Cons.prems(1) by simp
  show ?case
  proof (cases "cs = []")
    case True
    with Cons.prems have "count + 1 = 15" by simp
    with True clear show ?thesis
      by (simp add: iter_clear)
  next
    case False
    with Cons.prems have lt: "\<not> count + 1 \<ge> 15" and eq: "(count + 1) + int (length cs) = 15"
      by (simp_all, cases cs, simp_all)
    have all: "\<forall>c\<in>set cs. \<not> saw_wall thr c" using Cons.prems(1) by simp
    have "wall_following_loop thr p count ((c # cs) @ feed) s =
          wall_following_loop thr (clear_step_state p) (count + 1) (cs @ feed)
            (emit (clear_step_events p) s)"
      using clear lt by (simp add: iter_clear)
    also have "\<dots> = Returns feed (stop (emit (sweep_events (clear_step_state p) (length cs))
                                           (emit (clear_step_events p) s)))"
      by (rule Cons.IH [OF all eq False])
    finally show ?thesis by (simp add: emit_emit)
  qed
qed

lemma loop_clear_pending:
  "\<lbrakk>\<forall>c\<in>set cs. \<not> saw_wall thr c; count + int (length cs) < 15\<rbrakk> \<Longrightarrow>
   wall_following_loop thr p count cs s = Pending (emit (sweep_events p (length cs)) s)"
proof (induction cs arbitrary: p count s)
  case Nil
  then show ?case by (simp add: emit_Nil)
next
  case (Cons c cs)
  have clear: "\<not> saw_wall thr c" using Cons.prems(1) by simp
  have all: "\<forall>c\<in>set cs. \<not> saw_wall thr c" using Cons.prems(1) by simp
  from Cons.prems have lt: "\<not> count + 1 \<ge> 15" and lt': "(count + 1) + int (length cs) < 15"
    by simp_all
  have "wall_following_loop thr p count (c # cs) s =
        wall_following_loop thr (clear_step_state p) (count + 1) cs (emit (clear_step_events p) s)"
    using clear lt by (simp add: iter_clear)
  also have "\<dots> = Pending (emit (sweep_events (clear_step_state p) (length cs))
                               (emit (clear_step_events p) s))"
    by (rule Cons.IH [OF all lt'])
  finally show ?case by (simp add: emit_emit)
qed

lemma sweep_15:
  "sweep_events ''turning'' 15 =
     concat (replicate 7
       [SetVar ''motor.left.target'' 100, SetVar ''motor.right.target'' 100, Sleep 0.5,
        SetVar ''motor.left.target'' 65436, SetVar ''motor.right.target'' 100, Sleep 0.15]) @
     [SetVar ''motor.left.target'' 100, SetVar ''motor.right.target'' 100, Sleep 0.5]"
  by (simp add: numeral_eq_Suc clear_step_events_def clear_step_state_def)

lemma wall_following_run_15:
  assumes "saw_wall thr ob" and "length cs = 15" and "\<forall>c\<in>set cs. \<not> saw_wall thr c"
  shows "wall_following motor_speed thr (ob # cs @ rest) s =
           Returns rest
             (emit ([SetVar ''motor.left.target'' 100, SetVar ''motor.right.target'' 100,
                     SetVar ''motor.left.target'' 100, SetVar ''motor.right.target'' 65436,
                     Sleep 0.1] @
                    concat (replicate 7
                      [SetVar ''motor.left.target'' 100, SetVar ''motor.right.target'' 100,
                       Sleep 0.5,
                       SetVar ''motor.left.target'' 65436, SetVar ''motor.right.target'' 100,
                       Sleep 0.15]) @
                    [SetVar ''motor.left.target'' 100, SetVar ''motor.right.target'' 100,
                     Sleep 0.5] @
                    [SetVar ''motor.left.target'' 0, SetVar ''motor.right.target'' 0]) s) \<and>
         (\<forall>n<15. \<exists>s'. wall_following motor_speed thr (ob # take n cs) s = Pending s')"
proof -
  let ?s1 = "emit [SetVar ''motor.left.target'' 100, SetVar ''motor.right.target'' 100] s"
  let ?s2 = "emit [SetVar ''motor.left.target'' 100, SetVar ''motor.right.target'' 65436,
                   Sleep 0.1] ?s1"
  have start: "wall_following motor_speed thr (ob # feed) s =
               wall_following_loop thr ''turning'' 0 feed ?s2" for feed
    using assms(1)
    by (simp add: wall_following_def iter_saw_forward) (simp add: move_def encode_speed_def)
  have ne: "cs \<noteq> []" using assms(2) by auto
  have "wall_following_loop thr ''turning'' 0 (cs @ rest) ?s2 =
        Returns rest (stop (emit (sweep_events ''turning'' (length cs)) ?s2))"
    using assms(2) by (intro loop_clear_run [OF assms(3) _ ne]) simp
  then have a: "wall_following motor_speed thr (ob # cs @ rest) s =
           Returns rest
             (emit ([SetVar ''motor.left.target'' 100, SetVar ''motor.right.target'' 100,
                     SetVar ''motor.left.target'' 100, SetVar ''motor.right.target'' 65436,
                     Sleep 0.1] @
                    sweep_events ''turning'' 15 @
                    [SetVar ''motor.left.target'' 0, SetVar ''motor.right.target'' 0]) s)"
    by (simp add: start assms(2) stop_def move_def encode_speed_def emit_emit
        del: sweep_events.simps)
  have b: "\<exists>s'. wall_following motor_speed thr (ob # take n cs) s = Pending s'" if "n < 15" for n
  proof -
    have all: "\<forall>c\<in>set (take n cs). \<not> saw_wall thr c"
      using assms(3) by (meson in_set_takeD)
    have len: "0 + int (length (take n cs)) < 15" using that assms(2) by simp
    show ?thesis
      unfolding start using loop_clear_pending [OF all len] by blast
  qed
  from b have b': "\<forall>n<15. \<exists>s'. wall_following motor_speed thr (ob # take n cs) s = Pending s'"
    by blast
  show ?thesis
    unfolding a sweep_15 using b' by simp
qed

lemma map_state_simps:
  "map_state f (Returns v s) = Returns v (f s)"
  "map_state f (Raises e s) = Raises e (f s)"
  "map_state f (Pending s) = Pending (f s)"
  by (simp_all add: map_state_def)

lemma final_state_simps:
  "final_state (Returns v s) = s"
  "final_state (Raises e s) = s"
  "final_state (Pending s) = s"
  by (simp_all add: final_state_def)

lemma final_state_map_state: "final_state (map_state f r) = f (final_state r)"
  by (cases r) (simp_all add: map_state_simps final_state_simps)

lemma emit_eq_iff: "(emit a s = emit b s) = (a = b)"
proof
  assume "emit a s = emit b s"
  then have "trace (emit a s) = trace (emit b s)" by simp
  then show "a = b" by (simp add: emit_def)
qed simp

lemma emit_speed: "emit evs (s\<lparr>speed := v\<rparr>) = (emit evs s)\<lparr>speed := v\<rparr>"
  by (simp add: emit_def)

lemma move_speed: "move l r (s\<lparr>speed := v\<rparr>) = (move l r s)\<lparr>speed := v\<rparr>"
  by (simp add: move_def emit_speed)

lemma iter_speed:
  "wall_following_iter thr p c prox (s\<lparr>speed := v\<rparr>) =
     (case wall_following_iter thr p c prox s of (p', c', s') \<Rightarrow> (p', c', s'\<lparr>speed := v\<rparr>))"
  by (simp add: wall_following_iter_def emit_speed move_speed)

lemma loop_speed:
  "wall_following_loop thr p c feed (s\<lparr>speed := v\<rparr>) =
     map_state (\<lambda>s'. s'\<lparr>speed := v\<rparr>) (wall_following_loop thr p c feed s)"
proof (induction feed arbitrary: p c s)
  case Nil
  show ?case by (simp add: map_state_simps)
next
  case (Cons prox feed)
  obtain p' c' s' where it: "wall_following_iter thr p c prox s = (p', c', s')"
    by (cases "wall_following_iter thr p c prox s") auto
  then have it': "wall_following_iter thr p c prox (s\<lparr>speed := v\<rparr>) = (p', c', s'\<lparr>speed := v\<rparr>)"
    by (simp add: iter_speed)
  show ?case
    by (simp add: it it' Cons.IH map_state_simps stop_def move_speed)
qed

lemma iter_events:
  "\<exists>evs. snd (snd (wall_following_iter thr p c prox s)) = emit evs s \<and>
         list_all (\<lambda>w. \<bar>w\<bar> = 100) (wheel_speeds evs)"
proof -
  have a: "\<exists>evs. emit [Sleep d] (move l r s) = emit evs s \<and>
             list_all (\<lambda>w. \<bar>w\<bar> = 100) (wheel_speeds evs)"
    if "\<bar>decode_speed (encode_speed l)\<bar> = 100" "\<bar>decode_speed (encode_speed r)\<bar> = 100" for d l r
    using that
    by (intro exI [of _ "[SetVar ''motor.left.target'' (encode_speed l),
                          SetVar ''motor.right.target'' (encode_speed r), Sleep d]"])
       (simp add: move_def emit_emit)
  have b: "\<exists>evs. s = emit evs s \<and> list_all (\<lambda>w. \<bar>w\<bar> = 100) (wheel_speeds evs)"
    by (intro exI [of _ "[]"]) (simp add: emit_Nil)
  have e: "\<bar>decode_speed (encode_speed 100)\<bar> = 100" "\<bar>decode_speed (encode_speed (- 100))\<bar> = 100"
    by (simp_all add: decode_speed_def encode_speed_def)
  consider (turn_right) "saw_wall thr prox" "p = ''forward''"
    | (keep) "saw_wall thr prox" "p \<noteq> ''forward''"
    | (forward) "\<not> saw_wall thr prox" "p = ''turning''"
    | (turn_left) "\<not> saw_wall thr prox" "p \<noteq> ''turning''"
    by blast
  then show ?thesis
  proof cases
    case turn_right
    then show ?thesis using a [OF e(1) e(2)] by (simp add: wall_following_iter_def)
  next
    case keep
    then show ?thesis using b by (simp add: wall_following_iter_def)
  next
    case forward
    then show ?thesis using a [OF e(1) e(1)] by (simp add: wall_following_iter_def)
  next
    case turn_left
    then show ?thesis using a [OF e(2) e(1)] by (simp add: wall_following_iter_def)
  qed
qed

lemma loop_events:
  "\<exists>body. final_state (wall_following_loop thr p c feed s) =
            emit (body @
              (case wall_following_loop thr p c feed s of
                 Returns _ _ \<Rightarrow> [SetVar ''motor.left.target'' 0, SetVar ''motor.right.target'' 0]
               | _ \<Rightarrow> [])) s \<and>
          list_all (\<lambda>w. \<bar>w\<bar> = 100) (wheel_speeds body)"
proof (induction feed arbitrary: p c s)
  case Nil
  show ?case by (intro exI [of _ "[]"]) (simp add: final_state_simps emit_Nil)
next
  case (Cons prox feed)
  obtain p' c' s' where it: "wall_following_iter thr p c prox s = (p', c', s')"
    by (cases "wall_following_iter thr p c prox s") auto
  from iter_events [of thr p c prox s] it obtain evs
    where s': "s' = emit evs s" and evs: "list_all (\<lambda>w. \<bar>w\<bar> = 100) (wheel_speeds evs)"
    by auto
  show ?case
  proof (cases "c' \<ge> 15")
    case True
    then have "wall_following_loop thr p c (prox # feed) s = Returns feed (stop s')"
      by (simp add: it)
    then show ?thesis
      using evs by (intro exI [of _ evs])
        (simp add: final_state_simps stop_def move_def encode_speed_def s' emit_emit)
  next
    case False
    then have eq: "wall_following_loop thr p c (prox # feed) s = wall_following_loop thr p' c' feed s'"
      by (simp add: it)
    from Cons.IH [of p' c' s'] obtain body where
      b: "final_state (wall_following_loop thr p' c' feed s') =
            emit (body @
              (case wall_following_loop thr p' c' feed s' of
                 Returns _ _ \<Rightarrow> [SetVar ''motor.left.target'' 0, SetVar ''motor.right.target'' 0]
               | _ \<Rightarrow> [])) s'"
      and l: "list_all (\<lambda>w. \<bar>w\<bar> = 100) (wheel_speeds body)"
      by blast
    show ?thesis
      unfolding eq using b l evs
      by (intro exI [of _ "evs @ body"]) (simp add: s' emit_emit wheel_speeds_append)
  qed
qed

lemma loop_not_Raises: "wall_following_loop thr p c feed s \<noteq> Raises e s'"
proof (induction feed arbitrary: p c s)
  case Nil
  show ?case by simp
next
  case (Cons prox feed)
  obtain p' c' s1 where it: "wall_following_iter thr p c prox s = (p', c', s1)"
    by (cases "wall_following_iter thr p c prox s") auto
  show ?case
    using Cons.IH [of p' c' s1] by (simp add: it)
qed

lemma wall_following_frame:
  "\<exists>evs. final_state (wall_following m thr feed s) = emit evs s"
proof -
  from loop_events [of thr "''forward''" 0 feed "move 100 100 s"]
  show ?thesis
    unfolding wall_following_def move_def emit_emit by blast
qed

lemma test_saw_wall_scheduled:
  assumes "saw_wall thr prox"
  shows "let s0 = s\<lparr>rt := (rt s)\<lparr>is_running := False\<rparr>, flag_local := True, flag_skip := 2,
                    trace := trace s @ [TimerCancel]\<rparr>
         in \<exists>evs. final_state (wall_following 100 500 feed s0) = emit evs s0 \<and>
              test_saw_wall True thr (prox # feed) s =
                (case wall_following 100 500 feed s0 of
                   Returns feed2 _ \<Rightarrow>
                     Returns (PyBool False, feed2)
                       (s\<lparr>rt := (rt s)\<lparr>is_running := True\<rparr>, flag_local := False, flag_skip := 2,
                          trace := trace s @ [TimerCancel] @ evs @ [TimerStart (interval (rt s))]\<rparr>)
                 | Raises e s2 \<Rightarrow> Raises e s2
                 | Pending s2 \<Rightarrow> Pending s2)"
proof -
  define s0 where "s0 = s\<lparr>rt := (rt s)\<lparr>is_running := False\<rparr>, flag_local := True, flag_skip := 2,
                    trace := trace s @ [TimerCancel]\<rparr>"
  have prep: "(RepeatedTimer_stop s)\<lparr>flag_local := True, flag_skip := 2\<rparr> = s0"
    by (simp add: RepeatedTimer_stop_def emit_def s0_def)
  obtain evs where evs: "final_state (wall_following 100 500 feed s0) = emit evs s0"
    using wall_following_frame by blast
  have fin: "RepeatedTimer_start ((emit evs s0)\<lparr>flag_local := False\<rparr>) =
             s\<lparr>rt := (rt s)\<lparr>is_running := True\<rparr>, flag_local := False, flag_skip := 2,
                trace := trace s @ [TimerCancel] @ evs @ [TimerStart (interval (rt s))]\<rparr>"
    by (simp add: RepeatedTimer_start_def emit_def s0_def)
  have "test_saw_wall True thr (prox # feed) s =
                (case wall_following 100 500 feed s0 of
                   Returns feed2 _ \<Rightarrow>
                     Returns (PyBool False, feed2)
                       (s\<lparr>rt := (rt s)\<lparr>is_running := True\<rparr>, flag_local := False, flag_skip := 2,
                          trace := trace s @ [TimerCancel] @ evs @ [TimerStart (interval (rt s))]\<rparr>)
                 | Raises e s2 \<Rightarrow> Raises e s2
                 | Pending s2 \<Rightarrow> Pending s2)"
  proof (cases "wall_following 100 500 feed s0")
    case (Returns feed2 s2)
    with evs have "s2 = emit evs s0" by (simp add: final_state_simps)
    with Returns show ?thesis
      using assms by (simp add: test_saw_wall_def prep and_then_simps fin)
  next
    case (Raises e s2)
    then show ?thesis using assms by (simp add: test_saw_wall_def prep and_then_simps)
  next
    case (Pending s2)
    then show ?thesis using assms by (simp add: test_saw_wall_def prep and_then_simps)
  qed
  with evs show ?thesis
    unfolding Let_def s0_def [symmetric] by blast
qed

subsection \<open>The timed wait of \<open>go_straight\<close>\<close>



text \<open>
  The rounding of the counter decides how many slices a wait takes: with a planned
  duration of 1.5 s the counter stands at 1.5000000000000002 after 15 slices, and the wait
  is over after 15 tests of the flag.
\<close>

lemma time_move_fifteen_slices:
  "time_move (3 / 2) (replicate 15 False) s = Returns [] (emit (replicate 15 (Sleep 0.1)) s)"
  by (simp add: time_move_def numeral_eq_Suc slice_steps emit_emit)

subsection \<open>Speed encoding\<close>

text \<open>
  Claim C5. A speed in \<open>[-9999, -1]\<close> is written as \<open>v + 2^16\<close> by \<open>move\<close> and read back as
  \<open>v\<close> by the decoding of \<open>get_speed\<close>; a speed in \<open>[0, 9999]\<close> is written and read back
  unchanged. So \<open>get_speed\<close>, fed the two values \<open>move\<close> wrote, returns the two commanded
  speeds scaled to mm/s.
\<close>

theorem speed_encoding_roundtrip:
  "(- 9999 \<le> v \<and> v \<le> - 1 \<longrightarrow>
      encode_speed v = v + 2 ^ 16 \<and> decode_speed (encode_speed v) = v) \<and>
   (0 \<le> v \<and> v \<le> 9999 \<longrightarrow> encode_speed v = v \<and> decode_speed (encode_speed v) = v) \<and>
   (- 9999 \<le> l \<and> l \<le> 9999 \<and> - 9999 \<le> r \<and> r \<le> 9999 \<longrightarrow>
      (\<exists>wl wr. trace (move l r s) =
                 trace s @ [SetVar ''motor.left.target'' wl, SetVar ''motor.right.target'' wr] \<and>
               get_speed wl wr s' = (speed_to_mm_s s' * of_int l, speed_to_mm_s s' * of_int r)))"
  by (auto simp: decode_speed_def encode_speed_def move_def emit_def get_speed_def)

theorem speed_encoding_roundtrip_witness:
  "encode_speed (- 100) = 65436 \<and> decode_speed (encode_speed (- 100)) = - 100 \<and>
   encode_speed 100 = 100 \<and> decode_speed (encode_speed 100) = 100"
proof -
  have "encode_speed (- 100) = 65436 \<and> decode_speed (encode_speed (- 100)) = - 100"
    using speed_encoding_roundtrip [of "- 100" 0 0 Robot_init Robot_init]
    by (simp add: encode_speed_def)
  moreover have "encode_speed 100 = 100 \<and> decode_speed (encode_speed 100) = 100"
    using speed_encoding_roundtrip [of 100 0 0 Robot_init Robot_init]
    by (simp add: encode_speed_def)
  ultimately show ?thesis by blast
qed

subsection \<open>The straight-line plan\<close>



subsection \<open>Moving to a target\<close>

text \<open>
  Claim C7. For a pose \<open>[x, y, a]\<close> and a target \<open>[tx, ty]\<close> other than \<open>[x, y]\<close>,
  \<open>move_to_target\<close> takes \<open>turn_angle = degrees (atan2 (ty - y) (tx - x)) - a\<close>, replaces it
  by \<open>(turn_angle + 360) mod 360\<close> exactly when \<open>|turn_angle| > 180\<close>, and calls \<open>turn\<close> with
  the result, then \<open>go_straight\<close> with the Euclidean distance. The wrap does not bring the
  angle into \<open>(-180, 180]\<close>: from pose \<open>[0, 0, -90]\<close> to target \<open>[-1, 0]\<close> the angle handed to
  \<open>turn\<close> is 270.
\<close>

theorem move_to_target_turn_angle:
  assumes "curr_pos s = [x, y, a]" and "[tx, ty] \<noteq> [x, y]"
  shows "turn_angle_to (curr_pos s) [tx, ty] =
           (if \<bar>degrees (atan2 (ty - y) (tx - x)) - a\<bar> > 180
            then py_mod (degrees (atan2 (ty - y) (tx - x)) - a + 360) 360
            else degrees (atan2 (ty - y) (tx - x)) - a) \<and>
         move_to_target [tx, ty] flags s =
           and_then (turn (turn_angle_to (curr_pos s) [tx, ty]) s) (\<lambda>_ s1.
             and_then (go_straight (sqrt ((tx - x)\<^sup>2 + (ty - y)\<^sup>2)) flags s1)
               (\<lambda>r s2. Returns (PyNone, snd r) s2)) \<and>
         turn_angle_to [0, 0, - 90] [- 1, 0] = 270"
proof -
  have angle: "turn_angle_to [x, y, a] [tx, ty] =
           (if \<bar>degrees (atan2 (ty - y) (tx - x)) - a\<bar> > 180
            then py_mod (degrees (atan2 (ty - y) (tx - x)) - a + 360) 360
            else degrees (atan2 (ty - y) (tx - x)) - a)"
    by (simp add: turn_angle_to_def Let_def)
  have calls: "move_to_target [tx, ty] flags s =
           and_then (turn (turn_angle_to [x, y, a] [tx, ty]) s) (\<lambda>_ s1.
             and_then (go_straight (sqrt ((tx - x)\<^sup>2 + (ty - y)\<^sup>2)) flags s1)
               (\<lambda>r s2. Returns (PyNone, snd r) s2))"
    using assms by (auto simp add: move_to_target_def Let_def)
  have west: "atan2 0 (- 1) = pi"
    by (simp add: atan2_def)
  have wide: "turn_angle_to [0, 0, - 90] [- 1, 0] = 270"
    by (simp add: turn_angle_to_def Let_def degrees_def py_mod_def west)
  from angle calls wide show ?thesis
    by (simp only: assms(1) simp_thms)
qed

theorem move_to_target_turn_angle_witness:
  "curr_pos Robot_init = [0, 0, 0] \<and> [0, 100] \<noteq> [0, 0 :: real] \<and>
   turn_angle_to (curr_pos Robot_init) [0, 100] = 90 \<and>
   move_to_target [0, 100] [] Robot_init =
     Pending (emit [SetVar ''motor.left.target'' 65436, SetVar ''motor.right.target'' 100,
                    Sleep (23750 * pi / 31573),
                    SetVar ''motor.left.target'' 100, SetVar ''motor.right.target'' 100]
                Robot_init)"
proof -
  have h1: "curr_pos Robot_init = [0, 0, 0]" by (simp add: Robot_init_fields)
  have h2: "[0, 100] \<noteq> [0, 0 :: real]" by simp
  have north: "atan2 100 0 = pi / 2"
    by (simp add: atan2_def)
  have ang: "turn_angle_to [0, 0, 0] [0, 100] = 90"
    by (simp add: turn_angle_to_def Let_def degrees_def north)
  have t: "turn 90 Robot_init =
           Returns PyNone
             (emit [SetVar ''motor.left.target'' 65436, SetVar ''motor.right.target'' 100,
                    Sleep (23750 * pi / 31573)] Robot_init)"
    by (simp add: turn_def Let_def move_def encode_speed_def Robot_init_fields emit_emit)
  have g: "go_straight 100 [] s' =
           Pending (emit [SetVar ''motor.left.target'' 100, SetVar ''motor.right.target'' 100] s')"
    if "speed s' = 100" and "speed_to_mm_s s' = 31573 / 100000" for s'
    using that by (simp add: go_straight_def Let_def move_def encode_speed_def time_move_def and_then_simps)
  have f: "speed (emit evs Robot_init) = 100" "speed_to_mm_s (emit evs Robot_init) = 31573 / 100000"
    for evs
    by (simp_all add: emit_def Robot_init_fields)
  have m: "move_to_target [0, 100] [] Robot_init =
           and_then (turn 90 Robot_init) (\<lambda>_ s1.
             and_then (go_straight 100 [] s1) (\<lambda>r s2. Returns (PyNone, snd r) s2))"
    using move_to_target_turn_angle [OF h1 h2, of "[]"] by (simp add: h1 ang)
  show ?thesis
    by (simp add: h1 ang m t and_then_simps g f emit_emit)
qed

text \<open>
  Claim C8. When the target equals the first two entries of the stored pose,
  \<open>move_to_target\<close> returns \<open>False\<close> at once: the state, and with it the trace of transport
  writes, is unchanged, and no flag is read.
\<close>

theorem move_to_target_at_target:
  assumes "target_pos = take 2 (curr_pos s)"
  shows "move_to_target target_pos flags s = Returns (PyBool False, flags) s"
  using assms by (simp add: move_to_target_def)

theorem move_to_target_at_target_witness:
  "[0, 0] = take 2 (curr_pos Robot_init) \<and>
   move_to_target [0, 0] [] Robot_init = Returns (PyBool False, []) Robot_init \<and>
   trace Robot_init = [TimerStart 0.4]"
proof -
  have h: "[0, 0] = take 2 (curr_pos Robot_init)"
    by (simp add: Robot_init_fields)
  have t: "trace Robot_init = [TimerStart 0.4]"
    by (simp add: Robot_init_fields)
  from move_to_target_at_target [OF h, of "[]"] h t show ?thesis by simp
qed

subsection \<open>Zero requests\<close>

text \<open>
  Claim C9, as stated, fails for \<open>go_straight\<close>: on distance 0 it returns \<open>None\<close>, the value
  it returns on every distance, after sleeping one slice of its timed wait. And with the
  speed set to 0 a zero-angle \<open>turn\<close> is an error: the planned duration is computed, and
  the division raises, before the angle is looked at.
\<close>

theorem zero_requests_counterexample:
  "go_straight 0 [False] Robot_init = Returns (PyNone, []) (emit [Sleep 0.1] Robot_init) \<and>
   go_straight 3 [False] Robot_init =
     Returns (PyNone, [])
       (emit [SetVar ''motor.left.target'' 100, SetVar ''motor.right.target'' 100, Sleep 0.1]
          Robot_init) \<and>
   turn 0 (set_speed 0 Robot_init) = Raises ZeroDivisionError (set_speed 0 Robot_init)"
proof -
  have "go_straight 0 [False] Robot_init = Returns (PyNone, []) (emit [Sleep 0.1] Robot_init)"
    by (simp add: go_straight_def Let_def time_move_def Robot_init_fields and_then_simps
        first_slice)
  moreover have "go_straight 3 [False] Robot_init =
     Returns (PyNone, [])
       (emit [SetVar ''motor.left.target'' 100, SetVar ''motor.right.target'' 100, Sleep 0.1]
          Robot_init)"
    by (simp add: go_straight_def Let_def move_def time_move_def encode_speed_def
        Robot_init_fields and_then_simps emit_emit first_slice)
  moreover have "turn 0 (set_speed 0 Robot_init) = Raises ZeroDivisionError (set_speed 0 Robot_init)"
    by (simp add: turn_def set_speed_def)
  ultimately show ?thesis by blast
qed

text \<open>
  Claim C9, amended. With a nonzero speed setting and nonzero calibration factors, neither
  zero request raises and neither writes to the transport. \<open>turn\<close> on angle 0 returns
  \<open>False\<close> in an unchanged state, without sleeping. \<open>go_straight\<close> on distance 0 returns
  \<open>None\<close> and still runs its timed wait with planned duration 0: one slice of 0.1 s when
  the obstacle flag is clear, and no return while the flag is read set.
\<close>

theorem zero_requests:
  assumes "speed s \<noteq> 0" and "speed_to_deg_s s \<noteq> 0" and "speed_to_mm_s s \<noteq> 0"
  shows "turn 0 s = Returns (PyBool False) s \<and>
         go_straight 0 flags s =
           and_then (time_move 0 flags s) (\<lambda>flags' s2. Returns (PyNone, flags') s2) \<and>
         go_straight 0 (False # flags) s = Returns (PyNone, flags) (emit [Sleep 0.1] s) \<and>
         go_straight 0 (True # replicate j True) s = Pending s"
proof -
  have past: "time_move_while (float_add 0 float_0_1) 0 fl s' = Returns fl s'" for fl s'
    by (simp add: time_move_while_past first_slice)
  have blocked: "time_move_blocked 0 (replicate j True) s = Pending s"
    by (induction j) simp_all
  have g: "go_straight 0 fl s =
           and_then (time_move 0 fl s) (\<lambda>flags' s2. Returns (PyNone, flags') s2)" for fl
    using assms by (simp add: go_straight_def Let_def)
  have t: "turn 0 s = Returns (PyBool False) s"
    using assms by (simp add: turn_def Let_def)
  show ?thesis
    by (simp add: g t time_move_def and_then_simps past blocked)
qed

theorem zero_requests_witness:
  "speed Robot_init \<noteq> 0 \<and> speed_to_deg_s Robot_init \<noteq> 0 \<and> speed_to_mm_s Robot_init \<noteq> 0 \<and>
   turn 0 Robot_init = Returns (PyBool False) Robot_init \<and>
   go_straight 0 [False] Robot_init = Returns (PyNone, []) (emit [Sleep 0.1] Robot_init)"
proof -
  have h: "speed Robot_init \<noteq> 0" "speed_to_deg_s Robot_init \<noteq> 0" "speed_to_mm_s Robot_init \<noteq> 0"
    by (simp_all add: Robot_init_fields)
  from zero_requests [OF h, of "[]"] h show ?thesis by simp
qed

subsection \<open>Obstacle avoidance\<close>

text \<open>
  Claim C4. Let the sensors report an obstacle once and then no obstacle 15 times in a row.
  Then \<open>wall_following\<close> returns having read exactly these 16 values: after the forward
  command and the right turn it alternates forward and left-turn steps through the 15
  clear iterations, the last two writes set both motor targets to 0, and control returns.
  It does not return earlier: after the obstacle and fewer than 15 clear values it is still
  in its loop.
\<close>

theorem wall_following_terminates:
  assumes "saw_wall thr ob" and "length cs = 15" and "\<forall>c\<in>set cs. \<not> saw_wall thr c"
  shows "wall_following motor_speed thr (ob # cs @ rest) s =
           Returns rest
             (emit ([SetVar ''motor.left.target'' 100, SetVar ''motor.right.target'' 100,
                     SetVar ''motor.left.target'' 100, SetVar ''motor.right.target'' 65436,
                     Sleep 0.1] @
                    concat (replicate 7
                      [SetVar ''motor.left.target'' 100, SetVar ''motor.right.target'' 100,
                       Sleep 0.5,
                       SetVar ''motor.left.target'' 65436, SetVar ''motor.right.target'' 100,
                       Sleep 0.15]) @
                    [SetVar ''motor.left.target'' 100, SetVar ''motor.right.target'' 100,
                     Sleep 0.5] @
                    [SetVar ''motor.left.target'' 0, SetVar ''motor.right.target'' 0]) s) \<and>
         (\<forall>n<15. \<exists>s'. wall_following motor_speed thr (ob # take n cs) s = Pending s')"
  using assms by (rule wall_following_run_15)

theorem wall_following_terminates_witness:
  "saw_wall 500 [0, 0, 501, 0, 0, 0, 0] \<and>
   length (replicate 15 [0, 0, 0, 0, 0, 600, 600 :: int]) = 15 \<and>
   \<not> saw_wall 500 [0, 0, 0, 0, 0, 600, 600] \<and>
   (\<exists>s'. wall_following 100 500
            ([0, 0, 501, 0, 0, 0, 0] # replicate 15 [0, 0, 0, 0, 0, 600, 600] @ [])
            Robot_init = Returns [] s' \<and>
          wheel_speeds (drop 51 (trace s')) = [0, 0]) \<and>
   (\<exists>s'. wall_following 100 500
            ([0, 0, 501, 0, 0, 0, 0] # take 14 (replicate 15 [0, 0, 0, 0, 0, 600, 600]))
            Robot_init = Pending s')"
proof -
  have h1: "saw_wall 500 [0, 0, 501, 0, 0, 0, 0]"
    by (simp add: saw_wall_def)
  have h2: "length (replicate 15 [0, 0, 0, 0, 0, 600, 600 :: int]) = 15"
    by simp
  have h3: "\<forall>c\<in>set (replicate 15 [0, 0, 0, 0, 0, 600, 600]). \<not> saw_wall 500 c"
    by (simp add: saw_wall_def)
  note w = wall_following_terminates [OF h1 h2 h3, of 100 "[]" Robot_init]
  from w have pend: "\<exists>s'. wall_following 100 500
            ([0, 0, 501, 0, 0, 0, 0] # take 14 (replicate 15 [0, 0, 0, 0, 0, 600, 600]))
            Robot_init = Pending s'"
    by simp
  from w have ret: "\<exists>s'. wall_following 100 500
            ([0, 0, 501, 0, 0, 0, 0] # replicate 15 [0, 0, 0, 0, 0, 600, 600] @ [])
            Robot_init = Returns [] s' \<and>
          wheel_speeds (drop 51 (trace s')) = [0, 0]"
    by (simp add: emit_def Robot_init_fields numeral_eq_Suc decode_speed_def)
  have h4: "\<not> saw_wall 500 [0, 0, 0, 0, 0, 600, 600]"
    by (simp add: saw_wall_def)
  from h1 h2 h4 ret pend show ?thesis by blast
qed

text \<open>
  Claim C10, as stated, fails in its last part: not every wheel speed that
  \<open>wall_following\<close> commands has magnitude 100. A run that returns ends with \<open>stop()\<close>,
  which commands 0 to both wheels.
\<close>

theorem wall_following_speed_counterexample:
  "wall_following 100 500
     ([0, 0, 501, 0, 0, 0, 0] # replicate 15 [0, 0, 0, 0, 0, 600, 600]) Robot_init =
     Returns []
       (emit ([SetVar ''motor.left.target'' 100, SetVar ''motor.right.target'' 100,
               SetVar ''motor.left.target'' 100, SetVar ''motor.right.target'' 65436,
               Sleep 0.1] @
              concat (replicate 7
                [SetVar ''motor.left.target'' 100, SetVar ''motor.right.target'' 100,
                 Sleep 0.5,
                 SetVar ''motor.left.target'' 65436, SetVar ''motor.right.target'' 100,
                 Sleep 0.15]) @
              [SetVar ''motor.left.target'' 100, SetVar ''motor.right.target'' 100,
               Sleep 0.5] @
              [SetVar ''motor.left.target'' 0, SetVar ''motor.right.target'' 0]) Robot_init) \<and>
   wheel_speeds [SetVar ''motor.left.target'' 0, SetVar ''motor.right.target'' 0] = [0, 0]"
proof -
  have h1: "saw_wall 500 [0, 0, 501, 0, 0, 0, 0]" by (simp add: saw_wall_def)
  have h3: "\<forall>c\<in>set (replicate 15 [0, 0, 0, 0, 0, 600, 600]). \<not> saw_wall 500 c"
    by (simp add: saw_wall_def)
  have "wall_following 100 500
     ([0, 0, 501, 0, 0, 0, 0] # replicate 15 [0, 0, 0, 0, 0, 600, 600] @ []) Robot_init =
     Returns []
       (emit ([SetVar ''motor.left.target'' 100, SetVar ''motor.right.target'' 100,
               SetVar ''motor.left.target'' 100, SetVar ''motor.right.target'' 65436,
               Sleep 0.1] @
              concat (replicate 7
                [SetVar ''motor.left.target'' 100, SetVar ''motor.right.target'' 100,
                 Sleep 0.5,
                 SetVar ''motor.left.target'' 65436, SetVar ''motor.right.target'' 100,
                 Sleep 0.15]) @
              [SetVar ''motor.left.target'' 100, SetVar ''motor.right.target'' 100,
               Sleep 0.5] @
              [SetVar ''motor.left.target'' 0, SetVar ''motor.right.target'' 0]) Robot_init)"
    by (rule wall_following_run_15 [OF h1 _ h3, THEN conjunct1]) simp
  then have run: "wall_following 100 500
     ([0, 0, 501, 0, 0, 0, 0] # replicate 15 [0, 0, 0, 0, 0, 600, 600]) Robot_init =
     Returns []
       (emit ([SetVar ''motor.left.target'' 100, SetVar ''motor.right.target'' 100,
               SetVar ''motor.left.target'' 100, SetVar ''motor.right.target'' 65436,
               Sleep 0.1] @
              concat (replicate 7
                [SetVar ''motor.left.target'' 100, SetVar ''motor.right.target'' 100,
                 Sleep 0.5,
                 SetVar ''motor.left.target'' 65436, SetVar ''motor.right.target'' 100,
                 Sleep 0.15]) @
              [SetVar ''motor.left.target'' 100, SetVar ''motor.right.target'' 100,
               Sleep 0.5] @
              [SetVar ''motor.left.target'' 0, SetVar ''motor.right.target'' 0]) Robot_init)"
    by (simp only: append_Nil2)
  have "wheel_speeds [SetVar ''motor.left.target'' 0, SetVar ''motor.right.target'' 0] = [0, 0]"
    by (simp add: decode_speed_def)
  with run show ?thesis by blast
qed

text \<open>
  Claim C10, amended. The commands of \<open>wall_following\<close> depend neither on its
  \<open>motor_speed\<close> argument nor on the stored speed setting: run with another \<open>motor_speed\<close>
  from a state that differs only in \<open>speed\<close>, on the same sensor values, it ends the same
  way in a state that differs only in \<open>speed\<close>, with the same trace. Every wheel speed it
  commands has magnitude 100, except the closing stop: the trace grows by the forward
  command (100, 100), then by commands that all decode to 100 or -100, and, when the call
  returns, by the stop (0, 0).
\<close>

theorem wall_following_speed_independent:
  "wall_following ms' thr feed (s\<lparr>speed := v\<rparr>) =
     map_state (\<lambda>s'. s'\<lparr>speed := v\<rparr>) (wall_following ms thr feed s) \<and>
   trace (final_state (wall_following ms' thr feed (s\<lparr>speed := v\<rparr>))) =
     trace (final_state (wall_following ms thr feed s)) \<and>
   (\<exists>body. trace (final_state (wall_following ms thr feed s)) =
            trace s @ [SetVar ''motor.left.target'' 100, SetVar ''motor.right.target'' 100] @
              body @
              (case wall_following ms thr feed s of
                 Returns _ _ \<Rightarrow> [SetVar ''motor.left.target'' 0, SetVar ''motor.right.target'' 0]
               | _ \<Rightarrow> []) \<and>
          list_all (\<lambda>w. \<bar>w\<bar> = 100) (wheel_speeds body))"
proof -
  have a: "wall_following ms' thr feed (s\<lparr>speed := v\<rparr>) =
           map_state (\<lambda>s'. s'\<lparr>speed := v\<rparr>) (wall_following ms thr feed s)"
    by (simp add: wall_following_def move_speed loop_speed)
  have b: "trace (final_state (wall_following ms' thr feed (s\<lparr>speed := v\<rparr>))) =
           trace (final_state (wall_following ms thr feed s))"
    by (simp add: a final_state_map_state)
  from loop_events [of thr "''forward''" 0 feed "move 100 100 s"]
  have c: "\<exists>body. trace (final_state (wall_following ms thr feed s)) =
            trace s @ [SetVar ''motor.left.target'' 100, SetVar ''motor.right.target'' 100] @
              body @
              (case wall_following ms thr feed s of
                 Returns _ _ \<Rightarrow> [SetVar ''motor.left.target'' 0, SetVar ''motor.right.target'' 0]
               | _ \<Rightarrow> []) \<and>
          list_all (\<lambda>w. \<bar>w\<bar> = 100) (wheel_speeds body)"
    by (auto simp add: wall_following_def move_def emit_def encode_speed_def)
  from a b c show ?thesis by blast
qed

theorem wall_following_speed_independent_witness:
  "trace (final_state (wall_following 30 500 [[0, 0, 501, 0, 0, 0, 0]] (Robot_init\<lparr>speed := 7\<rparr>))) =
     trace (final_state (wall_following 100 500 [[0, 0, 501, 0, 0, 0, 0]] Robot_init)) \<and>
   trace (final_state (wall_following 100 500 [[0, 0, 501, 0, 0, 0, 0]] Robot_init)) =
     [TimerStart 0.4,
      SetVar ''motor.left.target'' 100, SetVar ''motor.right.target'' 100,
      SetVar ''motor.left.target'' 100, SetVar ''motor.right.target'' 65436, Sleep 0.1]"
proof -
  have val: "trace (final_state (wall_following 100 500 [[0, 0, 501, 0, 0, 0, 0]] Robot_init)) =
     [TimerStart 0.4,
      SetVar ''motor.left.target'' 100, SetVar ''motor.right.target'' 100,
      SetVar ''motor.left.target'' 100, SetVar ''motor.right.target'' 65436, Sleep 0.1]"
    by (simp add: wall_following_def wall_following_iter_def saw_wall_def move_def emit_def
        encode_speed_def final_state_simps Robot_init_fields)
  from wall_following_speed_independent [where ms = 100 and ms' = 30 and thr = 500
      and s = Robot_init and v = 7 and feed = "[[0, 0, 501, 0, 0, 0, 0]]"]
  have eq: "trace (final_state (wall_following 30 500 [[0, 0, 501, 0, 0, 0, 0]]
                     (Robot_init\<lparr>speed := 7\<rparr>))) =
            trace (final_state (wall_following 100 500 [[0, 0, 501, 0, 0, 0, 0]] Robot_init))"
    by blast
  from eq val show ?thesis by blast
qed

subsection \<open>The obstacle check\<close>

text \<open>
  Claim C3. Let some reading among all but the last two of the sensor value exceed the
  threshold. In query form \<open>test_saw_wall\<close> returns \<open>True\<close> and leaves the state as it was.
  In scheduled form it cancels the timer and clears \<open>is_running\<close>, sets \<open>flag_local\<close>, sets
  \<open>flag_skip\<close> to 2 and runs \<open>wall_following\<close> once from that state, which only adds events
  \<open>evs\<close> to the trace; if that run returns, \<open>flag_local\<close> is cleared and the timer started
  again, so the trace has grown by the cancel, \<open>evs\<close> and the start, in this order, and the
  result is \<open>False\<close>; as long as avoidance is running, so is the check, with the flag set.
  When no such reading exceeds the threshold, both forms return \<open>False\<close> in an unchanged
  state.
\<close>

theorem test_saw_wall_forms:
  "(saw_wall thr prox \<longrightarrow>
      test_saw_wall False thr (prox # feed) s = Returns (PyBool True, feed) s \<and>
      (let s0 = s\<lparr>rt := (rt s)\<lparr>is_running := False\<rparr>, flag_local := True, flag_skip := 2,
                   trace := trace s @ [TimerCancel]\<rparr>
       in \<exists>evs. final_state (wall_following 100 500 feed s0) = emit evs s0 \<and>
            test_saw_wall True thr (prox # feed) s =
              (case wall_following 100 500 feed s0 of
                 Returns feed2 _ \<Rightarrow>
                   Returns (PyBool False, feed2)
                     (s\<lparr>rt := (rt s)\<lparr>is_running := True\<rparr>, flag_local := False, flag_skip := 2,
                        trace := trace s @ [TimerCancel] @ evs @ [TimerStart (interval (rt s))]\<rparr>)
               | Raises e s2 \<Rightarrow> Raises e s2
               | Pending s2 \<Rightarrow> Pending s2))) \<and>
   (\<not> saw_wall thr prox \<longrightarrow>
      test_saw_wall thread thr (prox # feed) s = Returns (PyBool False, feed) s)"
proof -
  have q: "test_saw_wall False thr (prox # feed) s = Returns (PyBool True, feed) s"
    if "saw_wall thr prox"
    using that by (simp add: test_saw_wall_def)
  have n: "test_saw_wall thread thr (prox # feed) s = Returns (PyBool False, feed) s"
    if "\<not> saw_wall thr prox"
    using that by (simp add: test_saw_wall_def)
  from q n test_saw_wall_scheduled [where thr = thr and prox = prox and s = s and feed = feed] show ?thesis
    by blast
qed

theorem test_saw_wall_forms_witness:
  "saw_wall 500 [0, 0, 501, 0, 0, 0, 0] \<and> \<not> saw_wall 500 [0, 0, 0, 0, 0, 600, 600] \<and>
   test_saw_wall False 500 [[0, 0, 501, 0, 0, 0, 0]] Robot_init =
     Returns (PyBool True, []) Robot_init \<and>
   test_saw_wall True 500 [[0, 0, 0, 0, 0, 600, 600]] Robot_init =
     Returns (PyBool False, []) Robot_init \<and>
   test_saw_wall True 500
       ([0, 0, 501, 0, 0, 0, 0] # [0, 0, 501, 0, 0, 0, 0] # replicate 15 [0, 0, 0, 0, 0, 600, 600])
       Robot_init =
     Returns (PyBool False, [])
       (Robot_init\<lparr>flag_skip := 2,
          trace := [TimerStart 0.4, TimerCancel,
                    SetVar ''motor.left.target'' 100, SetVar ''motor.right.target'' 100,
                    SetVar ''motor.left.target'' 100, SetVar ''motor.right.target'' 65436,
                    Sleep 0.1] @
                   concat (replicate 7
                     [SetVar ''motor.left.target'' 100, SetVar ''motor.right.target'' 100,
                      Sleep 0.5,
                      SetVar ''motor.left.target'' 65436, SetVar ''motor.right.target'' 100,
                      Sleep 0.15]) @
                   [SetVar ''motor.left.target'' 100, SetVar ''motor.right.target'' 100,
                    Sleep 0.5,
                    SetVar ''motor.left.target'' 0, SetVar ''motor.right.target'' 0,
                    TimerStart 0.4]\<rparr>)"
proof -
  let ?ob = "[0, 0, 501, 0, 0, 0, 0] :: int list"
  let ?cl = "[0, 0, 0, 0, 0, 600, 600] :: int list"
  let ?s0 = "Robot_init\<lparr>rt := (rt Robot_init)\<lparr>is_running := False\<rparr>, flag_local := True,
                flag_skip := 2, trace := trace Robot_init @ [TimerCancel]\<rparr>"
  let ?E = "[SetVar ''motor.left.target'' 100, SetVar ''motor.right.target'' 100,
             SetVar ''motor.left.target'' 100, SetVar ''motor.right.target'' 65436,
             Sleep 0.1] @
            concat (replicate 7
              [SetVar ''motor.left.target'' 100, SetVar ''motor.right.target'' 100,
               Sleep 0.5,
               SetVar ''motor.left.target'' 65436, SetVar ''motor.right.target'' 100,
               Sleep 0.15]) @
            [SetVar ''motor.left.target'' 100, SetVar ''motor.right.target'' 100,
             Sleep 0.5] @
            [SetVar ''motor.left.target'' 0, SetVar ''motor.right.target'' 0]"
  have h1: "saw_wall 500 ?ob" by (simp add: saw_wall_def)
  have h2: "\<not> saw_wall 500 ?cl" by (simp add: saw_wall_def)
  have h3: "\<forall>c\<in>set (replicate 15 ?cl). \<not> saw_wall 500 c" by (simp add: saw_wall_def)
  note t1 = test_saw_wall_forms [where thr = 500 and prox = ?ob and feed = "[]" and s = Robot_init]
  note t2 = test_saw_wall_forms [where thr = 500 and prox = ?cl and feed = "[]" and s = Robot_init
      and thread = True]
  note t3 = test_saw_wall_forms [where thr = 500 and prox = ?ob and feed = "?ob # replicate 15 ?cl"
      and s = Robot_init]
  from t1 h1 have a: "test_saw_wall False 500 [?ob] Robot_init = Returns (PyBool True, []) Robot_init"
    by blast
  from t2 h2 have b: "test_saw_wall True 500 [?cl] Robot_init = Returns (PyBool False, []) Robot_init"
    by blast
  have "wall_following 100 500 (?ob # replicate 15 ?cl @ []) ?s0 = Returns [] (emit ?E ?s0)"
    by (rule wall_following_run_15 [OF h1 _ h3, THEN conjunct1]) simp
  then have run: "wall_following 100 500 (?ob # replicate 15 ?cl) ?s0 = Returns [] (emit ?E ?s0)"
    by (simp only: append_Nil2)
  from t3 h1 obtain evs where
    e1: "final_state (wall_following 100 500 (?ob # replicate 15 ?cl) ?s0) = emit evs ?s0" and
    e2: "test_saw_wall True 500 (?ob # ?ob # replicate 15 ?cl) Robot_init =
              (case wall_following 100 500 (?ob # replicate 15 ?cl) ?s0 of
                 Returns feed2 _ \<Rightarrow>
                   Returns (PyBool False, feed2)
                     (Robot_init\<lparr>rt := (rt Robot_init)\<lparr>is_running := True\<rparr>, flag_local := False,
                        flag_skip := 2,
                        trace := trace Robot_init @ [TimerCancel] @ evs @
                                 [TimerStart (interval (rt Robot_init))]\<rparr>)
               | Raises e s2 \<Rightarrow> Raises e s2
               | Pending s2 \<Rightarrow> Pending s2)"
    unfolding Let_def by blast
  from e1 have "emit ?E ?s0 = emit evs ?s0"
    by (simp only: run final_state_simps)
  then have evs: "evs = ?E"
    by (simp only: emit_eq_iff)
  have same: "Robot_init\<lparr>rt := (rt Robot_init)\<lparr>is_running := True\<rparr>, flag_local := False,
                flag_skip := 2, trace := tr\<rparr> = Robot_init\<lparr>flag_skip := 2, trace := tr\<rparr>" for tr
    by (simp add: Robot_init_def RepeatedTimer_start_def emit_def)
  have c: "test_saw_wall True 500 (?ob # ?ob # replicate 15 ?cl) Robot_init =
     Returns (PyBool False, [])
       (Robot_init\<lparr>flag_skip := 2,
          trace := trace Robot_init @ [TimerCancel] @ ?E @ [TimerStart (interval (rt Robot_init))]\<rparr>)"
    unfolding e2 run evs by (simp only: outcome.case same)
  show ?thesis
    unfolding c using h1 h2 a b
    by (simp add: Robot_init_fields)
qed

subsection \<open>The periodic task\<close>

text \<open>
  Claim C1, as stated, fails: \<open>_run\<close> calls \<open>start()\<close> before it calls the action. An action
  that only looks at the trace finds the next timer already started; and when the robot's
  watchdog fires on an obstacle, the next timer has been started (and then cancelled by
  the action itself) while the action is still in its avoidance loop.
\<close>

theorem RepeatedTimer_run_counterexample:
  "RepeatedTimer_run trace Robot_init = [TimerStart 0.4, TimerStart 0.4] \<and>
   watchdog_run [[0, 0, 501, 0, 0, 0, 0]] Robot_init =
     Pending (Robot_init\<lparr>rt := \<lparr>interval = 0.4, is_running = False\<rparr>,
                flag_local := True, flag_skip := 2,
                trace := [TimerStart 0.4, TimerStart 0.4, TimerCancel,
                          SetVar ''motor.left.target'' 100, SetVar ''motor.right.target'' 100]\<rparr>)"
  by (simp add: RepeatedTimer_run_def watchdog_run_def test_saw_wall_def saw_wall_def
      wall_following_def and_then_simps move_def encode_speed_def
      Robot_init_def RepeatedTimer_start_def RepeatedTimer_stop_def emit_def)

text \<open>
  Claim C1, amended. At every firing, \<open>_run\<close> clears \<open>is_running\<close> and schedules the next
  firing (a timer of \<open>interval\<close> seconds is started and \<open>is_running\<close> set) before it calls
  the action: the action starts in a state in which the next firing is already scheduled,
  whatever the action is and however long it takes. For the robot's watchdog, an obstacle
  makes the action cancel that timer as its first effect.
\<close>

theorem RepeatedTimer_run_schedules_first:
  "RepeatedTimer_run f s =
     f (s\<lparr>trace := trace s @ [TimerStart (interval (rt s))],
          rt := (rt s)\<lparr>is_running := True\<rparr>\<rparr>) \<and>
   (saw_wall 500 prox \<longrightarrow>
      (\<exists>evs. trace (final_state (watchdog_run (prox # feed) s)) =
              trace s @ [TimerStart (interval (rt s)), TimerCancel] @ evs))"
proof -
  let ?s1 = "s\<lparr>trace := trace s @ [TimerStart (interval (rt s))],
                rt := (rt s)\<lparr>is_running := True\<rparr>\<rparr>"
  have a: "RepeatedTimer_run g s = g ?s1" for g :: "robot \<Rightarrow> 'b"
    by (simp add: RepeatedTimer_run_def RepeatedTimer_start_def emit_def)
  have b: "\<exists>evs. trace (final_state (watchdog_run (prox # feed) s)) =
              trace s @ [TimerStart (interval (rt s)), TimerCancel] @ evs"
    if saw: "saw_wall 500 prox"
  proof -
    let ?s0 = "?s1\<lparr>rt := (rt ?s1)\<lparr>is_running := False\<rparr>, flag_local := True, flag_skip := 2,
                   trace := trace ?s1 @ [TimerCancel]\<rparr>"
    from test_saw_wall_scheduled [OF saw, where s = ?s1 and feed = feed] obtain evs where
      e1: "final_state (wall_following 100 500 feed ?s0) = emit evs ?s0" and
      e2: "test_saw_wall True 500 (prox # feed) ?s1 =
              (case wall_following 100 500 feed ?s0 of
                 Returns feed2 _ \<Rightarrow>
                   Returns (PyBool False, feed2)
                     (?s1\<lparr>rt := (rt ?s1)\<lparr>is_running := True\<rparr>, flag_local := False, flag_skip := 2,
                        trace := trace ?s1 @ [TimerCancel] @ evs @ [TimerStart (interval (rt ?s1))]\<rparr>)
               | Raises e s2 \<Rightarrow> Raises e s2
               | Pending s2 \<Rightarrow> Pending s2)"
      unfolding Let_def by blast
    have w: "watchdog_run (prox # feed) s = test_saw_wall True 500 (prox # feed) ?s1"
      unfolding watchdog_run_def by (rule a)
    show ?thesis
    proof (cases "wall_following 100 500 feed ?s0")
      case (Returns feed2 s2)
      then show ?thesis
        unfolding w e2 by (intro exI [of _ "evs @ [TimerStart (interval (rt s))]"])
          (simp add: final_state_simps)
    next
      case (Raises e s2)
      with e1 have "s2 = emit evs ?s0" by (simp add: final_state_simps)
      with Raises show ?thesis
        unfolding w e2 by (intro exI [of _ evs]) (simp add: final_state_simps emit_def)
    next
      case (Pending s2)
      with e1 have "s2 = emit evs ?s0" by (simp add: final_state_simps)
      with Pending show ?thesis
        unfolding w e2 by (intro exI [of _ evs]) (simp add: final_state_simps emit_def)
    qed
  qed
  from a [of f] b show ?thesis by blast
qed

theorem RepeatedTimer_run_schedules_first_witness:
  "saw_wall 500 [0, 0, 501, 0, 0, 0, 0] \<and>
   RepeatedTimer_run trace Robot_init = trace Robot_init @ [TimerStart 0.4] \<and>
   (\<exists>evs. trace (final_state (watchdog_run [[0, 0, 501, 0, 0, 0, 0]] Robot_init)) =
           trace Robot_init @ [TimerStart (interval (rt Robot_init)), TimerCancel] @ evs)"
proof -
  have h: "saw_wall 500 [0, 0, 501, 0, 0, 0, 0]" by (simp add: saw_wall_def)
  from RepeatedTimer_run_schedules_first [where f = trace and s = Robot_init
      and prox = "[0, 0, 501, 0, 0, 0, 0]" and feed = "[]"] h
  show ?thesis by (simp add: Robot_init_fields)
qed

end
